theory Spec2Isabelle
  imports Main
begin

section \<open>JavaScript values\<close>

text \<open>
  The client reads a handful of fields from JSON bodies and writes them into the page.
  A field is one of JavaScript's primitive values; a field that is absent reads as
  \<open>undefined\<close>. Numbers are integers here, printed in decimal: a number with a
  fraction, and an integer so large that JavaScript rounds it (above \<open>2^53\<close>) or prints
  it with an exponent (from \<open>10^21\<close>), are outside the model. \<open>JNaN\<close> is what
  \<open>parseInt\<close> returns on a string without digits.
  Text is a list of bytes: the non-ASCII letters of the source's messages appear as
  their UTF-8 bytes.
\<close>

datatype jsval = JUndefined | JNull | JBool bool | JNum int | JNaN | JStr string

fun string_of_nat :: "nat \<Rightarrow> string" where
  "string_of_nat n =
     (if n < 10 then [''0123456789'' ! n]
      else string_of_nat (n div 10) @ [''0123456789'' ! (n mod 10)])"

declare string_of_nat.simps [simp del]

text \<open>\<open>String(v)\<close>, as a template literal and \<open>+\<close> on a string apply it.\<close>

fun toString :: "jsval \<Rightarrow> string" where
  "toString JUndefined = ''undefined''"
| "toString JNull = ''null''"
| "toString (JBool b) = (if b then ''true'' else ''false'')"
| "toString (JNum n) = (if n < 0 then ''-'' @ string_of_nat (nat (- n)) else string_of_nat (nat n))"
| "toString JNaN = ''NaN''"
| "toString (JStr s) = s"

text \<open>Truthiness, and \<open>a || b\<close>.\<close>

fun truthy :: "jsval \<Rightarrow> bool" where
  "truthy JUndefined = False"
| "truthy JNull = False"
| "truthy (JBool b) = b"
| "truthy (JNum n) = (n \<noteq> 0)"
| "truthy JNaN = False"
| "truthy (JStr s) = (s \<noteq> [])"

definition js_or :: "jsval \<Rightarrow> jsval \<Rightarrow> jsval" where
  "js_or a b = (if truthy a then a else b)"

text \<open>
  The setter of \<open>textContent\<close>: its argument is a nullable string, so \<open>null\<close> and
  \<open>undefined\<close> give the empty text and every other value its \<open>String\<close>.
\<close>

fun textContent_of :: "jsval \<Rightarrow> string" where
  "textContent_of JUndefined = []"
| "textContent_of JNull = []"
| "textContent_of v = toString v"

section \<open>Class names\<close>

text \<open>
  \<open>className\<close> is a string; \<open>classList\<close> and the selector \<open>.name\<close> see it as the
  ordered set of its tokens, split at ASCII whitespace.
\<close>

definition is_space :: "char \<Rightarrow> bool" where
  "is_space c = (c = CHR '' '' \<or> c = CHR 0x09 \<or> c = CHR 0x0A \<or> c = CHR 0x0C \<or> c = CHR 0x0D)"

fun split_on :: "(char \<Rightarrow> bool) \<Rightarrow> string \<Rightarrow> string list" where
  "split_on P [] = [[]]"
| "split_on P (c # cs) =
     (if P c then [] # split_on P cs
      else (case split_on P cs of [] \<Rightarrow> [[c]] | t # ts \<Rightarrow> (c # t) # ts))"

fun ordered_set :: "string list \<Rightarrow> string list" where
  "ordered_set [] = []"
| "ordered_set (t # ts) = t # ordered_set (removeAll t ts)"

definition class_tokens :: "string \<Rightarrow> string list" where
  "class_tokens cn = ordered_set (filter (\<lambda>t. t \<noteq> []) (split_on is_space cn))"

fun join_space :: "string list \<Rightarrow> string" where
  "join_space [] = []"
| "join_space [t] = t"
| "join_space (t # ts) = t @ '' '' @ join_space ts"

definition has_class :: "string \<Rightarrow> string \<Rightarrow> bool" where
  "has_class c cn = (c \<in> set (class_tokens cn))"

text \<open>\<open>el.classList.add(c)\<close>: the attribute becomes the tokens, with \<open>c\<close> appended
  when it is new, joined by single spaces.\<close>

definition classList_add :: "string \<Rightarrow> string \<Rightarrow> string" where
  "classList_add c cn =
     (let ts = class_tokens cn in join_space (if c \<in> set ts then ts else ts @ [c]))"

section \<open>Markup\<close>

text \<open>
  The log box is filled through \<open>innerHTML\<close>: the browser parses the markup into
  nodes, and reading \<open>innerHTML\<close> serialises the nodes again. The nodes here are
  text and \<open>div\<close> elements that carry a class and text, which is what the rows of
  the log are made of. The parser reads \<open><div class="..."> ... </div>\<close> with text
  inside and takes every other character as text. On markup made of text and of
  such elements, where the text holds none of \<open><\<close>, \<open>&\<close>, NUL and CR and the class
  none of \<open>"\<close> and \<open>&\<close>, these are the nodes the browser builds; other markup is
  outside the model. The serialiser escapes \<open>&\<close>, \<open><\<close> and \<open>>\<close> in text and \<open>&\<close> and \<open>"\<close> in
  the class (the no-break space, which it escapes too, is not a single byte and is
  left as it is).
\<close>

datatype node = Text string | Div string string

definition div_open :: string where
  "div_open = ''<div class='' @ [CHR 0x22]"

definition parse_div :: "string \<Rightarrow> (node \<times> string) option" where
  "parse_div s =
     (if take (length div_open) s \<noteq> div_open then None
      else (let s1 = drop (length div_open) s;
                cls = takeWhile (\<lambda>c. c \<noteq> CHR 0x22) s1;
                s2 = dropWhile (\<lambda>c. c \<noteq> CHR 0x22) s1
            in if take 2 s2 \<noteq> [CHR 0x22, CHR ''>''] then None
               else (let s3 = drop 2 s2;
                         txt = takeWhile (\<lambda>c. c \<noteq> CHR ''<'') s3;
                         s4 = dropWhile (\<lambda>c. c \<noteq> CHR ''<'') s3
                     in if take 6 s4 \<noteq> ''</div>'' then None
                        else Some (Div cls txt, drop 6 s4))))"

text \<open>A character of text joins the text node that follows it, if there is one.\<close>

fun add_char :: "char \<Rightarrow> node list \<Rightarrow> node list" where
  "add_char c (Text t # ns) = Text (c # t) # ns"
| "add_char c ns = Text [c] # ns"

function parse_nodes :: "string \<Rightarrow> node list" where
  "parse_nodes [] = []"
| "parse_nodes (c # cs) =
     (case parse_div (c # cs) of
        Some (d, rest) \<Rightarrow> d # parse_nodes rest
      | None \<Rightarrow> add_char c (parse_nodes cs))"
  by pat_completeness auto
termination
proof (relation "measure length")
  show "wf (measure length)" by simp
next
  fix c cs x d rest
  assume "parse_div (c # cs) = Some x" and "(d, rest) = x"
  then have p: "parse_div (c # cs) = Some (d, rest)" by simp
  let ?s1 = "drop (length div_open) (c # cs)"
  let ?s2 = "dropWhile (\<lambda>c. c \<noteq> CHR 0x22) ?s1"
  let ?s3 = "drop 2 ?s2"
  let ?s4 = "dropWhile (\<lambda>c. c \<noteq> CHR ''<'') ?s3"
  from p have "rest = drop 6 ?s4"
    by (simp add: parse_div_def Let_def split: if_splits)
  then have "length rest \<le> length ?s4" by simp
  also have "\<dots> \<le> length ?s3" by (rule length_dropWhile_le)
  also have "\<dots> \<le> length ?s2" by simp
  also have "\<dots> \<le> length ?s1" by (rule length_dropWhile_le)
  also have "\<dots> < length (c # cs)" by (simp add: div_open_def)
  finally show "(rest, c # cs) \<in> measure length" by simp
next
  fix c cs
  assume "parse_div (c # cs) = None"
  show "(cs, c # cs) \<in> measure length" by simp
qed

declare parse_nodes.simps [simp del]

definition escape_text :: "string \<Rightarrow> string" where
  "escape_text t =
     concat (map (\<lambda>c. if c = CHR ''&'' then ''&amp;''
                       else if c = CHR ''<'' then ''&lt;''
                       else if c = CHR ''>'' then ''&gt;''
                       else [c]) t)"

definition escape_attr :: "string \<Rightarrow> string" where
  "escape_attr t =
     concat (map (\<lambda>c. if c = CHR ''&'' then ''&amp;''
                       else if c = CHR 0x22 then ''&quot;''
                       else [c]) t)"

fun serialize_node :: "node \<Rightarrow> string" where
  "serialize_node (Text t) = escape_text t"
| "serialize_node (Div c t) =
     div_open @ escape_attr c @ [CHR 0x22, CHR ''>''] @ escape_text t @ ''</div>''"

definition serialize :: "node list \<Rightarrow> string" where
  "serialize ns = concat (map serialize_node ns)"


text \<open>
  Text that the parser and the serialiser leave as it is: none of \<open><\<close>, \<open>>\<close>, \<open>&\<close>,
  \<open>"\<close>, NUL, CR, nor the byte \<open>A0\<close> (which the no-break space ends in).
\<close>

definition plain :: "string \<Rightarrow> bool" where
  "plain t =
     list_all (\<lambda>c. c \<noteq> CHR ''<'' \<and> c \<noteq> CHR ''>'' \<and> c \<noteq> CHR ''&'' \<and> c \<noteq> CHR 0x22 \<and>
                    c \<noteq> CHR 0x00 \<and> c \<noteq> CHR 0x0D \<and> c \<noteq> CHR 0xA0) t"

section \<open>Requests and responses\<close>

text \<open>
  A request the page sends with \<open>fetch\<close>. The body of a POST is the object handed to
  \<open>JSON.stringify\<close>, as its key-value pairs in order; every POST of the client carries
  the JSON content type.
\<close>

datatype request =
    GET string
  | POST string "(string \<times> jsval) list"
  | DELETE string

record estado =
  modo_actual :: jsval
  carga_cpu :: jsval
  latencia :: jsval

record log =
  fecha :: jsval
  nivel :: jsval
  usuario :: jsval
  evento :: jsval
  detalle :: jsval

text \<open>
  The parsed body \<open>data\<close>, with the fields the client reads. \<open>estado\<close> is \<open>None\<close> when
  the field is absent or null (reading a property of it throws), \<open>logs\<close> is \<open>None\<close>
  when the field is not an array (\<open>forEach\<close> on it throws).
\<close>

record data =
  status :: jsval
  estado :: "estado option"
  msg :: jsval
  logs :: "log list option"
  error :: jsval
  eliminados :: jsval

text \<open>
  What \<open>res.json()\<close> resolves to: the JSON value \<open>null\<close>, where reading any property
  throws a TypeError, or a value with properties (an object; a number, string,
  boolean or array reads every field the client asks for as \<open>undefined\<close>).
\<close>

datatype json = JsonNull | JsonObject data

text \<open>
  The response \<open>res\<close>: its HTTP status, and the outcome of \<open>res.json()\<close> (\<open>None\<close>
  when the body is not JSON and the promise rejects). A fetch that rejects (no
  connection) is \<open>None\<close> of \<open>response option\<close>.
\<close>

record response =
  res_status :: nat
  res_json :: "json option"

definition res_ok :: "response \<Rightarrow> bool" where
  "res_ok res = (200 \<le> res_status res \<and> res_status res \<le> 299)"

datatype exn = TypeError | SyntaxError | NetworkError | Error string

section \<open>The dashboard page\<close>

text \<open>
  What both pages share: the requests sent so far, and the diagnostic channel
  (\<open>console.error(label, error)\<close>).
\<close>

record window =
  requests :: "request list"
  console :: "(string \<times> exn) list"

record button =
  disabled :: bool
  innerHTML :: string

text \<open>An element made by \<open>document.createElement('div')\<close>.\<close>

record element =
  className :: string
  textContent :: string
  animation :: string

text \<open>
  A pending \<open>setTimeout\<close> callback of a notification, with the node it closes over:
  the outer one starts the slide-out animation and schedules the inner one, which
  removes the node.
\<close>

datatype timer = SlideOut nat | Remove nat

text \<open>
  The dashboard: the global \<open>btnActual\<close> (null, or a reference to a button), the
  buttons by reference, the elements the script looks up by id (\<open>modo-val\<close>,
  \<open>cpu-val\<close>, \<open>latencia-val\<close>, \<open>kpi-estado\<close>, \<open>modal-confirm\<close>, and \<open>log-box\<close> with
  its child nodes), and the nodes the script appends to \<open>document.body\<close>, each with
  its identity. The markup of the page is not part of the sources: the elements the
  script looks up by id are taken to exist, and the elements of that markup are taken
  not to carry the class \<open>notificacion\<close>.
\<close>

record dom = window +
  btnActual :: "nat option"
  buttons :: "nat \<Rightarrow> button"
  modo_val :: string
  cpu_val :: string
  latencia_val :: string
  kpi_estado :: string
  modal_confirm :: string
  log_box :: "node list"
  log_box_scrollTop :: nat
  body_children :: "(nat \<times> element) list"
  next_node :: nat
  timers :: "timer list"

definition fetch :: "request \<Rightarrow> 'a window_scheme \<Rightarrow> 'a window_scheme" where
  "fetch rq s = s\<lparr>requests := requests s @ [rq]\<rparr>"

definition console_error :: "string \<Rightarrow> exn \<Rightarrow> 'a window_scheme \<Rightarrow> 'a window_scheme" where
  "console_error label e s = s\<lparr>console := console s @ [(label, e)]\<rparr>"

subsection \<open>mostrarNotificacion\<close>

text \<open>
  \<open>document.querySelector('.notificacion')\<close> searches the whole document in document
  order and \<open>remove()\<close> takes the first match out: a row of the log box that carries
  the class comes before every node appended to the body. Every call of
  \<open>mostrarNotificacion\<close> in the sources passes \<open>tipo\<close>.
\<close>

fun remove_first :: "('a \<Rightarrow> bool) \<Rightarrow> 'a list \<Rightarrow> 'a list" where
  "remove_first P [] = []"
| "remove_first P (x # xs) = (if P x then xs else x # remove_first P xs)"

definition is_notificacion :: "nat \<times> element \<Rightarrow> bool" where
  "is_notificacion ne = has_class ''notificacion'' (className (snd ne))"

fun is_notificacion_node :: "node \<Rightarrow> bool" where
  "is_notificacion_node (Text t) = False"
| "is_notificacion_node (Div c t) = has_class ''notificacion'' c"

definition mostrarNotificacion :: "jsval \<Rightarrow> string \<Rightarrow> dom \<Rightarrow> dom" where
  "mostrarNotificacion mensaje tipo s =
     (let s1 = (if list_ex is_notificacion_node (log_box s)
                then s\<lparr>log_box := remove_first is_notificacion_node (log_box s)\<rparr>
                else s\<lparr>body_children := remove_first is_notificacion (body_children s)\<rparr>);
          notif = \<lparr>className = ''notificacion '' @ tipo,
                   textContent = textContent_of mensaje,
                   animation = []\<rparr>;
          n = next_node s1
      in s1\<lparr>body_children := body_children s1 @ [(n, notif)],
            next_node := Suc n,
            timers := timers s1 @ [SlideOut n]\<rparr>)"


subsection \<open>actualizarUI\<close>

text \<open>Reading \<open>estado.modo_actual\<close> of a missing \<open>estado\<close> throws before anything is
  written.\<close>

definition actualizarUI :: "estado option \<Rightarrow> dom \<Rightarrow> exn + dom" where
  "actualizarUI eo s =
     (case eo of
        None \<Rightarrow> Inl TypeError
      | Some e \<Rightarrow>
          (let s1 = s\<lparr>modo_val := textContent_of (modo_actual e),
                      cpu_val := textContent_of (carga_cpu e),
                      latencia_val := textContent_of (latencia e),
                      kpi_estado := ''kpi''\<rparr>
           in if modo_actual e = JStr ''OFF''
              then Inr (s1\<lparr>kpi_estado := classList_add ''status-off'' (kpi_estado s1)\<rparr>)
              else if modo_actual e = JStr ''STANDBY''
              then Inr (s1\<lparr>kpi_estado := classList_add ''status-standby'' (kpi_estado s1)\<rparr>)
              else Inr (s1\<lparr>kpi_estado := classList_add ''status-on'' (kpi_estado s1)\<rparr>)))"

subsection \<open>cargarEstadoActual\<close>

definition cargarEstadoActual_try :: "response option \<Rightarrow> dom \<Rightarrow> exn option \<times> dom" where
  "cargarEstadoActual_try result s =
     (case result of
        None \<Rightarrow> (Some NetworkError, s)
      | Some res \<Rightarrow>
          if \<not> res_ok res then (Some (Error ''Error al obtener estado''), s)
          else (case res_json res of
                  None \<Rightarrow> (Some SyntaxError, s)
                | Some JsonNull \<Rightarrow> (Some TypeError, s)
                | Some (JsonObject data) \<Rightarrow>
                    if status data = JStr ''success''
                    then (case actualizarUI (estado data) s of
                            Inl e \<Rightarrow> (Some e, s)
                          | Inr s' \<Rightarrow> (None, s'))
                    else (None, s)))"

definition cargarEstadoActual :: "response option \<Rightarrow> dom \<Rightarrow> dom" where
  "cargarEstadoActual result s =
     (case cargarEstadoActual_try result (fetch (GET ''/api/estado'') s) of
        (None, s') \<Rightarrow> s'
      | (Some e, s') \<Rightarrow>
          mostrarNotificacion (JStr ''Error al cargar estado del sistema'') ''error''
            (console_error ''Error:'' e s'))"

subsection \<open>cargarLogs\<close>

definition log_row :: "log \<Rightarrow> string" where
  "log_row l =
     (let nivel = js_or (nivel l) (JStr ''INFO'') in
        [CHR 0x0A] @ replicate 16 (CHR '' '') @
        ''<div class='' @ [CHR 0x22] @ ''log-row '' @ toString nivel @ [CHR 0x22] @ ''>'' @
        [CHR 0x0A] @ replicate 20 (CHR '' '') @
        ''['' @ toString (fecha l) @ ''] ['' @ toString nivel @ ''] '' @ toString (usuario l) @
        '': '' @ toString (evento l) @ '' - '' @ toString (detalle l) @
        [CHR 0x0A] @ replicate 16 (CHR '' '') @ ''</div>'' @
        [CHR 0x0A] @ replicate 12 (CHR '' ''))"

text \<open>
  \<open>cargarLogs\<close> is async: a call runs it up to the fetch, and the rest runs when the
  response arrives. \<open>caja.innerHTML = ''\<close> leaves the box without children, and
  \<open>caja.innerHTML += html\<close> serialises the children, appends the row's markup and
  parses the result into the new children.
\<close>

definition cargarLogs_fetch :: "dom \<Rightarrow> dom" where
  "cargarLogs_fetch s = fetch (GET ''/api/historial?limite=15'') s"

definition cargarLogs_try :: "response option \<Rightarrow> dom \<Rightarrow> exn option \<times> dom" where
  "cargarLogs_try result s =
     (case result of
        None \<Rightarrow> (Some NetworkError, s)
      | Some res \<Rightarrow>
          if \<not> res_ok res then (Some (Error ''Error al cargar logs''), s)
          else (case res_json res of
                  None \<Rightarrow> (Some SyntaxError, s)
                | Some JsonNull \<Rightarrow> (Some TypeError, s)
                | Some (JsonObject data) \<Rightarrow>
                    if status data \<noteq> JStr ''success'' then (None, s)
                    else (let s1 = s\<lparr>log_box := parse_nodes []\<rparr> in
                          case logs data of
                            None \<Rightarrow> (Some TypeError, s1)
                          | Some ls \<Rightarrow>
                              (None,
                               (foldl (\<lambda>st l. st\<lparr>log_box :=
                                          parse_nodes (serialize (log_box st) @ log_row l)\<rparr>)
                                      s1 ls)
                                 \<lparr>log_box_scrollTop := 0\<rparr>))))"

definition cargarLogs_then :: "response option \<Rightarrow> dom \<Rightarrow> dom" where
  "cargarLogs_then result s =
     (case cargarLogs_try result s of
        (None, s') \<Rightarrow> s'
      | (Some e, s') \<Rightarrow> console_error ''Error al cargar logs:'' e s')"

definition cargarLogs :: "response option \<Rightarrow> dom \<Rightarrow> dom" where
  "cargarLogs result s = cargarLogs_then result (cargarLogs_fetch s)"

subsection \<open>enviarComando\<close>

definition spinner :: string where
  "spinner = ''<span class='' @ [CHR 0x22] @ ''spinner'' @ [CHR 0x22] @ ''></span>''"

definition msg_demasiadas :: string where
  "msg_demasiadas = ''Demasiadas solicitudes. Espere un momento.''"

definition msg_conexion_servidor :: string where
  "msg_conexion_servidor = ''Error de conexi'' @ [CHR 0xC3, CHR 0xB3] @ ''n con el servidor''"

definition msg_conexion :: string where
  "msg_conexion = ''Error de conexi'' @ [CHR 0xC3, CHR 0xB3] @ ''n''"

text \<open>The body of the \<open>try\<close>, from the arrival of the response on.\<close>

definition enviarComando_try :: "response option \<Rightarrow> dom \<Rightarrow> exn option \<times> dom" where
  "enviarComando_try result s =
     (case result of
        None \<Rightarrow> (Some NetworkError, s)
      | Some res \<Rightarrow>
          (case res_json res of
             None \<Rightarrow> (Some SyntaxError, s)
           | Some j \<Rightarrow>
               if res_status res = 429
               then (None, mostrarNotificacion (JStr msg_demasiadas) ''error'' s)
               else (case j of
                       JsonNull \<Rightarrow> (Some TypeError, s)
                     | JsonObject data \<Rightarrow>
                         if status data = JStr ''success''
                         then (case actualizarUI (estado data) s of
                                 Inl e \<Rightarrow> (Some e, s)
                               | Inr s1 \<Rightarrow>
                                   (None,
                                    cargarLogs_fetch
                                      (mostrarNotificacion (msg data) ''success'' s1)))
                         else if status data = JStr ''info''
                         then (None, mostrarNotificacion (msg data) ''info'' s)
                         else (None, mostrarNotificacion (msg data) ''error'' s))))"

text \<open>
  \<open>btn\<close> is a reference: null (\<open>None\<close>), where the first write through it throws
  outside the \<open>try\<close>, or a button. The second component is the page when the call has
  settled, the first the exception that escapes, if any.
\<close>

definition enviarComando :: "jsval \<Rightarrow> nat option \<Rightarrow> response option \<Rightarrow> dom \<Rightarrow> exn option \<times> dom" where
  "enviarComando modo btn result s =
     (case btn of
        None \<Rightarrow> (Some TypeError, s)
      | Some b \<Rightarrow>
          (let textoOriginal = innerHTML (buttons s b);
               s1 = s\<lparr>buttons := (buttons s)
                      (b := (buttons s b)\<lparr>disabled := True, innerHTML := textoOriginal @ spinner\<rparr>)\<rparr>;
               s2 = fetch (POST ''/api/cambiar_modo'' [(''modo'', modo)]) s1;
               s3 = (case enviarComando_try result s2 of
                       (None, s') \<Rightarrow> s'
                     | (Some e, s') \<Rightarrow>
                         mostrarNotificacion (JStr msg_conexion_servidor) ''error''
                           (console_error ''Error:'' e s'))
           in (None,
               s3\<lparr>buttons := (buttons s3)
                     (b := (buttons s3 b)\<lparr>disabled := False, innerHTML := textoOriginal\<rparr>)\<rparr>)))"

subsection \<open>The confirmation modal\<close>


definition cerrarModal :: "dom \<Rightarrow> dom" where
  "cerrarModal s = s\<lparr>modal_confirm := ''none'', btnActual := None\<rparr>"

definition confirmarApagadoFinal_try :: "response option \<Rightarrow> dom \<Rightarrow> exn option \<times> dom" where
  "confirmarApagadoFinal_try result s =
     (case result of
        None \<Rightarrow> (Some NetworkError, s)
      | Some res \<Rightarrow>
          (case res_json res of
             None \<Rightarrow> (Some SyntaxError, s)
           | Some JsonNull \<Rightarrow> (Some TypeError, s)
           | Some (JsonObject data) \<Rightarrow>
               if status data = JStr ''success''
               then (case actualizarUI (estado data) s of
                       Inl e \<Rightarrow> (Some e, s)
                     | Inr s1 \<Rightarrow>
                         (None,
                          cargarLogs_fetch
                            (mostrarNotificacion (JStr ''Sistema apagado correctamente'') ''success'' s1)))
               else (None, mostrarNotificacion (msg data) ''error'' s)))"

definition confirmarApagadoFinal :: "response option \<Rightarrow> dom \<Rightarrow> exn option \<times> dom" where
  "confirmarApagadoFinal result s =
     (case btnActual s of
        None \<Rightarrow> (None, cerrarModal s)
      | Some b \<Rightarrow>
          (let s0 = cerrarModal s;
               textoOriginal = innerHTML (buttons s0 b);
               s1 = s0\<lparr>buttons := (buttons s0)
                      (b := (buttons s0 b)\<lparr>disabled := True, innerHTML := textoOriginal @ spinner\<rparr>)\<rparr>;
               s2 = fetch (POST ''/api/cambiar_modo''
                             [(''modo'', JStr ''OFF''), (''confirmado'', JBool True)]) s1;
               s3 = (case confirmarApagadoFinal_try result s2 of
                       (None, s') \<Rightarrow> s'
                     | (Some e, s') \<Rightarrow>
                         mostrarNotificacion (JStr msg_conexion) ''error''
                           (console_error ''Error:'' e s'))
           in (None,
               s3\<lparr>buttons := (buttons s3)
                     (b := (buttons s3 b)\<lparr>disabled := False, innerHTML := textoOriginal\<rparr>)\<rparr>)))"


subsection \<open>The page over time\<close>





text \<open>The state the page shows: mode, CPU load, latency and the indicator's class.\<close>

definition displayed :: "dom \<Rightarrow> string \<times> string \<times> string \<times> string" where
  "displayed s = (modo_val s, cpu_val s, latencia_val s, kpi_estado s)"


text \<open>
  A sample dashboard, used to run the handlers on concrete inputs: nothing requested
  yet, placeholders in the indicators, the modal closed, a log box that holds one
  earlier row and is scrolled down, no notification, every button enabled and
  labelled \<open>Apagar\<close>.
\<close>

definition pagina :: dom where
  "pagina =
     \<lparr>requests = [], console = [],
      btnActual = None,
      buttons = (\<lambda>_. \<lparr>disabled = False, innerHTML = ''Apagar''\<rparr>),
      modo_val = ''--'', cpu_val = ''--'', latencia_val = ''--'',
      kpi_estado = ''kpi'',
      modal_confirm = ''none'',
      log_box = [Div ''log-row INFO'' ''old''], log_box_scrollTop = 40,
      body_children = [], next_node = 0, timers = []\<rparr>"

definition empty_data :: data where
  "empty_data =
     \<lparr>status = JUndefined, estado = None, msg = JUndefined, logs = None,
      error = JUndefined, eliminados = JUndefined\<rparr>"

section \<open>Rows of the log box\<close>












section \<open>The admin page\<close>

text \<open>
  \<open>parseInt(str)\<close> with no radix: leading whitespace (the ASCII part of it) is skipped,
  then an optional sign, then \<open>0x\<close> selects base 16, and the longest run of digits is
  read; no digit gives \<open>NaN\<close>.
\<close>

definition digit_value :: "char \<Rightarrow> nat option" where
  "digit_value c =
     (let n = (of_char c :: nat) in
      if 48 \<le> n \<and> n \<le> 57 then Some (n - 48)
      else if 97 \<le> n \<and> n \<le> 122 then Some (n - 87)
      else if 65 \<le> n \<and> n \<le> 90 then Some (n - 55)
      else None)"

definition is_digit_in :: "nat \<Rightarrow> char \<Rightarrow> bool" where
  "is_digit_in radix c = (case digit_value c of None \<Rightarrow> False | Some d \<Rightarrow> d < radix)"

definition parseInt :: "string \<Rightarrow> jsval" where
  "parseInt str =
     (let s1 = dropWhile (\<lambda>c. is_space c \<or> c = CHR 0x0B) str;
          neg = (take 1 s1 = ''-'');
          s2 = (if take 1 s1 = ''-'' \<or> take 1 s1 = ''+'' then drop 1 s1 else s1);
          hex = (take 2 s2 = ''0x'' \<or> take 2 s2 = ''0X'');
          radix = (if hex then 16 else 10);
          s3 = (if hex then drop 2 s2 else s2);
          ds = takeWhile (is_digit_in radix) s3;
          n = foldl (\<lambda>a c. a * radix + (case digit_value c of None \<Rightarrow> 0 | Some d \<Rightarrow> d)) 0 ds
      in if ds = [] then JNaN else JNum (if neg then - int n else int n))"

record form_usuario =
  usuario_id :: string
  usuario_username :: string
  usuario_password :: string
  usuario_nombre :: string
  usuario_email :: string
  usuario_rol :: string

text \<open>
  The admin page: the dialogs shown (\<open>alert\<close> and \<open>confirm\<close>, with their messages),
  the fields of the user form, the two modals and the field \<open>dias-mantener\<close>. What
  \<open>form.reset()\<close> puts back into the fields is fixed by the page's markup, which is not
  part of the sources: it is the component \<open>form_usuario_reset\<close>.
\<close>

record admin = window +
  alerts :: "string list"
  confirms :: "string list"
  form_usuario :: form_usuario
  form_usuario_reset :: "form_usuario \<Rightarrow> form_usuario"
  modal_usuario :: string
  modal_usuario_titulo :: string
  modal_limpiar_logs :: string
  dias_mantener :: string

definition alert :: "string \<Rightarrow> admin \<Rightarrow> admin" where
  "alert m s = s\<lparr>alerts := alerts s @ [m]\<rparr>"

text \<open>The calls \<open>cargarUsuarios()\<close> and \<open>cargarEstadisticas()\<close> are not awaited: what
  they do within the caller is send their request.\<close>

definition cargarUsuarios_fetch :: "admin \<Rightarrow> admin" where
  "cargarUsuarios_fetch s = fetch (GET ''/api/admin/usuarios'') s"

definition cargarEstadisticas_fetch :: "admin \<Rightarrow> admin" where
  "cargarEstadisticas_fetch s = fetch (GET ''/api/admin/estadisticas'') s"

text \<open>\<open>mostrarModalUsuario(userId = null)\<close>: with a user id the modal opens for an edit
  and the id goes into the field \<open>usuario-id\<close>; without one the form is reset and the
  field emptied.\<close>

definition mostrarModalUsuario :: "jsval \<Rightarrow> admin \<Rightarrow> admin" where
  "mostrarModalUsuario userId s =
     (let s1 = s\<lparr>modal_usuario := ''block''\<rparr> in
      if truthy userId
      then s1\<lparr>modal_usuario_titulo := ''Editar Usuario'',
              form_usuario := (form_usuario s1)\<lparr>usuario_id := toString userId\<rparr>\<rparr>
      else s1\<lparr>modal_usuario_titulo := ''Nuevo Usuario'',
              form_usuario := (form_usuario_reset s1 (form_usuario s1))\<lparr>usuario_id := []\<rparr>\<rparr>)"

definition cerrarModalUsuario :: "admin \<Rightarrow> admin" where
  "cerrarModalUsuario s =
     s\<lparr>modal_usuario := ''none'', form_usuario := form_usuario_reset s (form_usuario s)\<rparr>"

definition error_alert :: "data \<Rightarrow> string" where
  "error_alert d = ''Error: '' @ toString (js_or (error d) (JStr ''Error desconocido''))"

subsection \<open>guardarUsuario\<close>

definition guardarUsuario_try :: "response option \<Rightarrow> admin \<Rightarrow> exn option \<times> admin" where
  "guardarUsuario_try result s =
     (case result of
        None \<Rightarrow> (Some NetworkError, s)
      | Some res \<Rightarrow>
          (case res_json res of
             None \<Rightarrow> (Some SyntaxError, s)
           | Some JsonNull \<Rightarrow> (Some TypeError, s)
           | Some (JsonObject d) \<Rightarrow>
               if status d = JStr ''success''
               then (None,
                     cargarEstadisticas_fetch
                       (cargarUsuarios_fetch
                          (cerrarModalUsuario (alert ''Usuario guardado correctamente'' s))))
               else (None, alert (error_alert d) s)))"

text \<open>\<open>userId\<close> is read from the field \<open>usuario-id\<close>, as the source does; \<open>datos\<close> is
  built from the other five fields. \<open>event.preventDefault()\<close> changes nothing of the
  page as modelled.\<close>

definition guardarUsuario :: "response option \<Rightarrow> admin \<Rightarrow> admin" where
  "guardarUsuario result s =
     (let userId = usuario_id (form_usuario s);
          datos = [(''username'', JStr (usuario_username (form_usuario s))),
                   (''password'', JStr (usuario_password (form_usuario s))),
                   (''nombre_completo'', JStr (usuario_nombre (form_usuario s))),
                   (''email'', JStr (usuario_email (form_usuario s))),
                   (''rol'', JStr (usuario_rol (form_usuario s)))];
          s1 = fetch (POST ''/api/admin/usuarios'' datos) s
      in case guardarUsuario_try result s1 of
           (None, s') \<Rightarrow> s'
         | (Some e, s') \<Rightarrow> alert msg_conexion (console_error ''Error al guardar usuario:'' e s'))"

subsection \<open>confirmarEliminarUsuario\<close>

definition msg_confirmar_desactivar :: string where
  "msg_confirmar_desactivar =
     [CHR 0xC2, CHR 0xBF] @ ''Est'' @ [CHR 0xC3, CHR 0xA1] @
     '' seguro que desea desactivar este usuario?''"

definition confirmarEliminarUsuario_try :: "response option \<Rightarrow> admin \<Rightarrow> exn option \<times> admin" where
  "confirmarEliminarUsuario_try result s =
     (case result of
        None \<Rightarrow> (Some NetworkError, s)
      | Some res \<Rightarrow>
          (case res_json res of
             None \<Rightarrow> (Some SyntaxError, s)
           | Some JsonNull \<Rightarrow> (Some TypeError, s)
           | Some (JsonObject d) \<Rightarrow>
               if status d = JStr ''success''
               then (None,
                     cargarEstadisticas_fetch
                       (cargarUsuarios_fetch (alert ''Usuario desactivado correctamente'' s)))
               else (None, alert (error_alert d) s)))"

text \<open>\<open>confirmed\<close> is what the user answers to \<open>confirm(...)\<close>.\<close>

definition confirmarEliminarUsuario :: "jsval \<Rightarrow> bool \<Rightarrow> response option \<Rightarrow> admin \<Rightarrow> admin" where
  "confirmarEliminarUsuario userId confirmed result s =
     (let s0 = s\<lparr>confirms := confirms s @ [msg_confirmar_desactivar]\<rparr> in
      if \<not> confirmed then s0
      else (let s1 = fetch (DELETE (''/api/admin/usuarios/'' @ toString userId)) s0
            in case confirmarEliminarUsuario_try result s1 of
                 (None, s') \<Rightarrow> s'
               | (Some e, s') \<Rightarrow>
                   alert msg_conexion (console_error ''Error al eliminar usuario:'' e s')))"

subsection \<open>ejecutarLimpiezaLogs\<close>

definition msg_confirmar_limpieza :: "string \<Rightarrow> string" where
  "msg_confirmar_limpieza dias =
     ''Se eliminar'' @ [CHR 0xC3, CHR 0xA1] @ ''n todos los logs anteriores a '' @ dias @
     '' d'' @ [CHR 0xC3, CHR 0xAD] @ ''as. '' @ [CHR 0xC2, CHR 0xBF] @ ''Continuar?''"

definition cerrarModalLimpiarLogs :: "admin \<Rightarrow> admin" where
  "cerrarModalLimpiarLogs s = s\<lparr>modal_limpiar_logs := ''none''\<rparr>"

definition ejecutarLimpiezaLogs_try :: "response option \<Rightarrow> admin \<Rightarrow> exn option \<times> admin" where
  "ejecutarLimpiezaLogs_try result s =
     (case result of
        None \<Rightarrow> (Some NetworkError, s)
      | Some res \<Rightarrow>
          (case res_json res of
             None \<Rightarrow> (Some SyntaxError, s)
           | Some JsonNull \<Rightarrow> (Some TypeError, s)
           | Some (JsonObject d) \<Rightarrow>
               if status d = JStr ''success''
               then (None,
                     cargarEstadisticas_fetch
                       (cerrarModalLimpiarLogs
                          (alert (''Limpieza completada. '' @ toString (eliminados d) @
                                  '' registros eliminados'') s)))
               else (None, alert (error_alert d) s)))"

definition ejecutarLimpiezaLogs :: "bool \<Rightarrow> response option \<Rightarrow> admin \<Rightarrow> admin" where
  "ejecutarLimpiezaLogs confirmed result s =
     (let dias = dias_mantener s;
          s0 = s\<lparr>confirms := confirms s @ [msg_confirmar_limpieza dias]\<rparr> in
      if \<not> confirmed then s0
      else (let s1 = fetch (POST ''/api/admin/logs/limpiar'' [(''dias'', parseInt dias)]) s0
            in case ejecutarLimpiezaLogs_try result s1 of
                 (None, s') \<Rightarrow> s'
               | (Some e, s') \<Rightarrow>
                   alert msg_conexion (console_error ''Error al limpiar logs:'' e s')))"

text \<open>A sample admin page: the user form holds the data of a user, with no id.\<close>

definition pagina_admin :: admin where
  "pagina_admin =
     \<lparr>requests = [], console = [],
      alerts = [], confirms = [],
      form_usuario = \<lparr>usuario_id = [], usuario_username = ''ana'',
                       usuario_password = ''s3creta'', usuario_nombre = ''Ana Ruiz'',
                       usuario_email = ''ana@example.org'', usuario_rol = ''operador''\<rparr>,
      form_usuario_reset = (\<lambda>f. \<lparr>usuario_id = usuario_id f, usuario_username = [],
                       usuario_password = [], usuario_nombre = [],
                       usuario_email = [], usuario_rol = ''operador''\<rparr>),
      modal_usuario = ''none'', modal_usuario_titulo = ''Nuevo Usuario'',
      modal_limpiar_logs = ''block'',
      dias_mantener = ''30''\<rparr>"

section \<open>Sample responses\<close>

text \<open>The state \<open>{modo_actual: "CINE", carga_cpu: 88, latencia: 24}\<close>.\<close>

definition estado_cine :: estado where
  "estado_cine = \<lparr>modo_actual = JStr ''CINE'', carga_cpu = JNum 88, latencia = JNum 24\<rparr>"

text \<open>HTTP 200 with \<open>{status: "success", estado: {...}}\<close>.\<close>

definition res_estado_cine :: response where
  "res_estado_cine =
     \<lparr>res_status = 200,
      res_json = Some (JsonObject (empty_data\<lparr>status := JStr ''success'', estado := Some estado_cine\<rparr>))\<rparr>"

text \<open>HTTP 429 with the same body.\<close>

definition res_429_success :: response where
  "res_429_success =
     \<lparr>res_status = 429,
      res_json = Some (JsonObject (empty_data\<lparr>status := JStr ''success'', estado := Some estado_cine\<rparr>))\<rparr>"

text \<open>HTTP 429 with \<open>{status: "error", msg: "rate limit exceeded"}\<close>.\<close>

definition res_429_error :: response where
  "res_429_error =
     \<lparr>res_status = 429,
      res_json = Some (JsonObject (empty_data\<lparr>status := JStr ''error'', msg := JStr ''rate limit exceeded''\<rparr>))\<rparr>"

text \<open>HTTP 200 with \<open>{status: "info", msg: "sin cambios"}\<close>.\<close>

definition res_info :: response where
  "res_info =
     \<lparr>res_status = 200,
      res_json = Some (JsonObject (empty_data\<lparr>status := JStr ''info'', msg := JStr ''sin cambios''\<rparr>))\<rparr>"



text \<open>HTTP 500 with \<open>{status: "error"}\<close>, and HTTP 200 with a body that is not JSON.\<close>

definition res_500 :: response where
  "res_500 = \<lparr>res_status = 500, res_json = Some (JsonObject (empty_data\<lparr>status := JStr ''error''\<rparr>))\<rparr>"

definition res_not_json :: response where
  "res_not_json = \<lparr>res_status = 200, res_json = None\<rparr>"





section \<open>Properties of the markup\<close>

lemma plain_append [simp]: "plain (a @ b) = (plain a \<and> plain b)"
  by (simp add: plain_def)


lemma plain_Nil [simp]: "plain []"
  by (simp add: plain_def)

lemma plain_replicate_space [simp]: "plain (replicate n (CHR '' ''))"
  by (simp add: plain_def list_all_iff)





lemma escape_text_append: "escape_text (a @ b) = escape_text a @ escape_text b"
  by (simp add: escape_text_def)





subsection \<open>The markup of the rows\<close>

















section \<open>Properties of the dashboard\<close>

subsection \<open>The log box\<close>







text \<open>
  Claim C9. A log refresh that fails (the fetch rejects, the response is not 2xx, the
  body is not JSON, the body is \<open>null\<close>, or its status is not \<open>success\<close>) leaves the
  log box as it was, content and scroll position.
\<close>

theorem log_refresh_failure_keeps_list:
  "log_box (cargarLogs None s) = log_box s \<and>
   log_box_scrollTop (cargarLogs None s) = log_box_scrollTop s \<and>
   (\<not> res_ok res \<or> res_json res = None \<or> res_json res = Some JsonNull \<or>
      (\<exists>d. res_json res = Some (JsonObject d) \<and> status d \<noteq> JStr ''success'') \<longrightarrow>
    log_box (cargarLogs (Some res) s) = log_box s \<and>
    log_box_scrollTop (cargarLogs (Some res) s) = log_box_scrollTop s)"
  by (auto simp: cargarLogs_def cargarLogs_then_def cargarLogs_try_def cargarLogs_fetch_def
        fetch_def console_error_def)

theorem log_refresh_failure_keeps_list_witness:
  "\<not> res_ok res_500 \<and> res_json res_not_json = None \<and>
   res_json res_info =
     Some (JsonObject (empty_data\<lparr>status := JStr ''info'', msg := JStr ''sin cambios''\<rparr>)) \<and>
   log_box (cargarLogs (Some res_500) pagina) = [Div ''log-row INFO'' ''old''] \<and>
   log_box (cargarLogs (Some res_not_json) pagina) = [Div ''log-row INFO'' ''old''] \<and>
   log_box (cargarLogs (Some res_info) pagina) = [Div ''log-row INFO'' ''old''] \<and>
   log_box_scrollTop (cargarLogs (Some res_500) pagina) = 40"
  using log_refresh_failure_keeps_list [of pagina res_500]
    log_refresh_failure_keeps_list [of pagina res_not_json]
    log_refresh_failure_keeps_list [of pagina res_info]
  by (simp add: res_ok_def res_500_def res_not_json_def res_info_def empty_data_def pagina_def)


subsection \<open>Notifications\<close>





text \<open>What a call does to the nodes, in each of its two cases.\<close>

lemma mostrar_nodes:
  "body_children (mostrarNotificacion m t s) =
     (if list_ex is_notificacion_node (log_box s) then body_children s
      else remove_first is_notificacion (body_children s)) @
     [(next_node s, \<lparr>className = ''notificacion '' @ t, textContent = textContent_of m,
                      animation = []\<rparr>)]"
  "log_box (mostrarNotificacion m t s) =
     (if list_ex is_notificacion_node (log_box s)
      then remove_first is_notificacion_node (log_box s) else log_box s)"
  by (simp_all add: mostrarNotificacion_def Let_def del: append.simps)








































subsection \<open>Command dispatch\<close>

text \<open>
  Claim C3. After a command dispatch has settled, the triggering control is enabled
  and carries the label it had when the dispatch began, whatever the outcome of the
  request (any response, or none): for \<open>enviarComando\<close> on a button, and for
  \<open>confirmarApagadoFinal\<close> on the button recorded in \<open>btnActual\<close>. No exception
  escapes either call.
\<close>

theorem dispatch_restores_control:
  "fst (enviarComando modo (Some b) r s) = None \<and>
   \<not> disabled (buttons (snd (enviarComando modo (Some b) r s)) b) \<and>
   innerHTML (buttons (snd (enviarComando modo (Some b) r s)) b) = innerHTML (buttons s b) \<and>
   (btnActual s = Some b \<longrightarrow>
      fst (confirmarApagadoFinal r s) = None \<and>
      \<not> disabled (buttons (snd (confirmarApagadoFinal r s)) b) \<and>
      innerHTML (buttons (snd (confirmarApagadoFinal r s)) b) = innerHTML (buttons s b))"
  by (simp add: enviarComando_def confirmarApagadoFinal_def cerrarModal_def Let_def)

theorem dispatch_restores_control_witness:
  "btnActual (pagina\<lparr>btnActual := Some 3\<rparr>) = Some 3 \<and>
   \<not> disabled (buttons (snd (confirmarApagadoFinal None (pagina\<lparr>btnActual := Some 3\<rparr>))) 3) \<and>
   innerHTML (buttons (snd (confirmarApagadoFinal None (pagina\<lparr>btnActual := Some 3\<rparr>))) 3) =
     ''Apagar''"
  using dispatch_restores_control [of "JStr ''OFF''" 3 None "pagina\<lparr>btnActual := Some 3\<rparr>"]
  by (simp add: pagina_def)

text \<open>
  Claim C5. When the confirm action of the OFF modal fires while \<open>btnActual\<close> is null,
  no exception escapes, no request is sent, and the page changes in nothing but the
  modal being closed.
\<close>

theorem confirm_without_pending_control:
  "btnActual s = None \<Longrightarrow>
     confirmarApagadoFinal r s = (None, s\<lparr>modal_confirm := ''none''\<rparr>) \<and>
     requests (snd (confirmarApagadoFinal r s)) = requests s"
  by (simp add: confirmarApagadoFinal_def cerrarModal_def)

theorem confirm_without_pending_control_witness:
  "btnActual (pagina\<lparr>modal_confirm := ''block''\<rparr>) = None \<and>
   confirmarApagadoFinal (Some res_estado_cine) (pagina\<lparr>modal_confirm := ''block''\<rparr>) =
     (None, pagina) \<and>
   requests (snd (confirmarApagadoFinal (Some res_estado_cine)
     (pagina\<lparr>modal_confirm := ''block''\<rparr>))) = []"
  using confirm_without_pending_control
    [of "pagina\<lparr>modal_confirm := ''block''\<rparr>" "Some res_estado_cine"]
  by (simp add: pagina_def)

subsection \<open>What the page displays\<close>

lemma classList_add_kpi:
  "classList_add ''status-off'' ''kpi'' = ''kpi status-off''"
  "classList_add ''status-standby'' ''kpi'' = ''kpi status-standby''"
  "classList_add ''status-on'' ''kpi'' = ''kpi status-on''"
  by (simp_all add: classList_add_def class_tokens_def is_space_def)

lemma displayed_mostrar: "displayed (mostrarNotificacion m t s) = displayed s"
  by (simp add: mostrarNotificacion_def displayed_def Let_def)

lemma displayed_fetch: "displayed (fetch rq s) = displayed s"
  by (simp add: fetch_def displayed_def)

lemma displayed_console_error: "displayed (console_error l e s) = displayed s"
  by (simp add: console_error_def displayed_def)

lemma displayed_cargarLogs_fetch: "displayed (cargarLogs_fetch s) = displayed s"
  by (simp add: cargarLogs_fetch_def displayed_fetch)

lemma displayed_cerrarModal: "displayed (cerrarModal s) = displayed s"
  by (simp add: cerrarModal_def displayed_def)

lemma displayed_buttons_update: "displayed (s\<lparr>buttons := f\<rparr>) = displayed s"
  by (simp add: displayed_def)

lemmas displayed_simps = displayed_mostrar displayed_fetch displayed_console_error
  displayed_cargarLogs_fetch displayed_cerrarModal displayed_buttons_update

lemma actualizarUI_Some:
  "actualizarUI (Some e) s =
     Inr (s\<lparr>modo_val := textContent_of (modo_actual e),
            cpu_val := textContent_of (carga_cpu e),
            latencia_val := textContent_of (latencia e),
            kpi_estado :=
              (if modo_actual e = JStr ''OFF'' then ''kpi status-off''
               else if modo_actual e = JStr ''STANDBY'' then ''kpi status-standby''
               else ''kpi status-on'')\<rparr>)"
  by (simp add: actualizarUI_def classList_add_kpi Let_def)

lemma displayed_actualizarUI:
  "actualizarUI (Some e) s = Inr s' \<Longrightarrow>
     displayed s' =
       (textContent_of (modo_actual e), textContent_of (carga_cpu e),
        textContent_of (latencia e),
        (if modo_actual e = JStr ''OFF'' then ''kpi status-off''
         else if modo_actual e = JStr ''STANDBY'' then ''kpi status-standby''
         else ''kpi status-on''))"
  by (auto simp: actualizarUI_Some displayed_def)

text \<open>
  Claim C6. When the state fetch returns a 2xx response whose body has status
  \<open>success\<close> and carries a state, the page displays that state's mode, CPU load and
  latency, and the indicator's class is \<open>kpi status-off\<close> for mode OFF,
  \<open>kpi status-standby\<close> for STANDBY and \<open>kpi status-on\<close> for every other mode. For
  \<open>{modo_actual: "CINE", carga_cpu: 88, latencia: 24}\<close> that is CINE, 88, 24 and the
  on-style class.
\<close>

theorem state_fetch_success_renders:
  assumes "res_ok res" and "res_json res = Some (JsonObject d)"
    and "status d = JStr ''success''" and "estado d = Some e"
  shows "displayed (cargarEstadoActual (Some res) s) =
           (textContent_of (modo_actual e), textContent_of (carga_cpu e),
            textContent_of (latencia e),
            (if modo_actual e = JStr ''OFF'' then ''kpi status-off''
             else if modo_actual e = JStr ''STANDBY'' then ''kpi status-standby''
             else ''kpi status-on''))"
proof -
  obtain s' where ui: "actualizarUI (Some e) (fetch (GET ''/api/estado'') s) = Inr s'"
    by (simp add: actualizarUI_Some)
  then have "cargarEstadoActual (Some res) s = s'"
    using assms by (simp add: cargarEstadoActual_def cargarEstadoActual_try_def)
  then show ?thesis
    using displayed_actualizarUI [OF ui] by simp
qed

theorem state_fetch_success_renders_witness:
  "res_ok res_estado_cine \<and>
   res_json res_estado_cine =
     Some (JsonObject (empty_data\<lparr>status := JStr ''success'', estado := Some estado_cine\<rparr>)) \<and>
   displayed (cargarEstadoActual (Some res_estado_cine) pagina) =
     (''CINE'', ''88'', ''24'', ''kpi status-on'')"
  using state_fetch_success_renders
    [of res_estado_cine
        "empty_data\<lparr>status := JStr ''success'', estado := Some estado_cine\<rparr>"
        estado_cine pagina]
  by (simp add: res_ok_def res_estado_cine_def estado_cine_def empty_data_def
        string_of_nat.simps)

subsection \<open>Mode-change responses\<close>

lemma enviarComando_snd:
  "snd (enviarComando modo (Some b) r s) =
     (let s2 = fetch (POST ''/api/cambiar_modo'' [(''modo'', modo)])
                 (s\<lparr>buttons := (buttons s)
                    (b := (buttons s b)\<lparr>disabled := True,
                                          innerHTML := innerHTML (buttons s b) @ spinner\<rparr>)\<rparr>);
          s3 = (case enviarComando_try r s2 of
                  (None, s') \<Rightarrow> s'
                | (Some e, s') \<Rightarrow>
                    mostrarNotificacion (JStr msg_conexion_servidor) ''error''
                      (console_error ''Error:'' e s'))
      in s3\<lparr>buttons := (buttons s3)
            (b := (buttons s3 b)\<lparr>disabled := False, innerHTML := innerHTML (buttons s b)\<rparr>)\<rparr>)"
  by (simp add: enviarComando_def Let_def)

lemma confirmarApagadoFinal_snd:
  "btnActual s = Some b \<Longrightarrow>
   snd (confirmarApagadoFinal r s) =
     (let s0 = cerrarModal s;
          s2 = fetch (POST ''/api/cambiar_modo''
                        [(''modo'', JStr ''OFF''), (''confirmado'', JBool True)])
                 (s0\<lparr>buttons := (buttons s0)
                    (b := (buttons s0 b)\<lparr>disabled := True,
                                           innerHTML := innerHTML (buttons s0 b) @ spinner\<rparr>)\<rparr>);
          s3 = (case confirmarApagadoFinal_try r s2 of
                  (None, s') \<Rightarrow> s'
                | (Some e, s') \<Rightarrow>
                    mostrarNotificacion (JStr msg_conexion) ''error''
                      (console_error ''Error:'' e s'))
      in s3\<lparr>buttons := (buttons s3)
            (b := (buttons s3 b)\<lparr>disabled := False, innerHTML := innerHTML (buttons s0 b)\<rparr>)\<rparr>)"
  by (simp add: confirmarApagadoFinal_def Let_def)

lemma last_mostrar:
  "snd (last (body_children (mostrarNotificacion m t s))) =
     \<lparr>className = ''notificacion '' @ t, textContent = textContent_of m, animation = []\<rparr>"
  by (simp add: mostrar_nodes(1) del: append.simps)

lemma enviarComando_429:
  assumes "res_json res = Some j" and "res_status res = 429"
  shows "displayed (snd (enviarComando modo (Some b) (Some res) s)) = displayed s"
    and "snd (last (body_children (snd (enviarComando modo (Some b) (Some res) s)))) =
           \<lparr>className = ''notificacion error'', textContent = msg_demasiadas, animation = []\<rparr>"
  using assms
  by (simp_all add: enviarComando_snd enviarComando_try_def Let_def displayed_simps last_mostrar)

lemma enviarComando_success:
  assumes "res_json res = Some (JsonObject d)" and "res_status res \<noteq> 429"
    and "status d = JStr ''success''" and "estado d = Some e"
  shows "displayed (snd (enviarComando modo (Some b) (Some res) s)) =
           (textContent_of (modo_actual e), textContent_of (carga_cpu e),
            textContent_of (latencia e),
            (if modo_actual e = JStr ''OFF'' then ''kpi status-off''
             else if modo_actual e = JStr ''STANDBY'' then ''kpi status-standby''
             else ''kpi status-on''))"
  using assms
  by (simp add: enviarComando_snd enviarComando_try_def Let_def displayed_simps
        actualizarUI_Some)
     (simp add: displayed_def)

lemma enviarComando_other:
  assumes "res_json res = Some (JsonObject d)" and "res_status res \<noteq> 429"
    and "status d \<noteq> JStr ''success''"
  shows "displayed (snd (enviarComando modo (Some b) (Some res) s)) = displayed s"
    and "snd (last (body_children (snd (enviarComando modo (Some b) (Some res) s)))) =
           \<lparr>className = (if status d = JStr ''info'' then ''notificacion info''
                          else ''notificacion error''),
            textContent = textContent_of (msg d), animation = []\<rparr>"
  using assms
  by (simp_all add: enviarComando_snd enviarComando_try_def Let_def displayed_simps last_mostrar)

lemma confirmarApagadoFinal_success:
  assumes "btnActual s = Some b" and "res_json res = Some (JsonObject d)"
    and "status d = JStr ''success''" and "estado d = Some e"
  shows "displayed (snd (confirmarApagadoFinal (Some res) s)) =
           (textContent_of (modo_actual e), textContent_of (carga_cpu e),
            textContent_of (latencia e),
            (if modo_actual e = JStr ''OFF'' then ''kpi status-off''
             else if modo_actual e = JStr ''STANDBY'' then ''kpi status-standby''
             else ''kpi status-on''))"
  using assms
  by (simp add: confirmarApagadoFinal_snd confirmarApagadoFinal_try_def Let_def displayed_simps
        actualizarUI_Some)
     (simp add: displayed_def)

lemma confirmarApagadoFinal_other:
  assumes "btnActual s = Some b" and "res_json res = Some (JsonObject d)"
    and "status d \<noteq> JStr ''success''"
  shows "displayed (snd (confirmarApagadoFinal (Some res) s)) = displayed s"
    and "snd (last (body_children (snd (confirmarApagadoFinal (Some res) s)))) =
           \<lparr>className = ''notificacion error'', textContent = textContent_of (msg d),
            animation = []\<rparr>"
  using assms
  by (simp_all add: confirmarApagadoFinal_snd confirmarApagadoFinal_try_def Let_def
        displayed_simps last_mostrar)

text \<open>
  Claim C4, as the code has it. For a mode-change response whose body parses to a
  JSON value other than \<open>null\<close>: on the plain dispatch a response with HTTP status 429
  never changes the displayed state, whatever its body says. With any other HTTP
  status, on the plain dispatch and on the confirmed OFF dispatch alike, a body with
  status \<open>success\<close> that carries a state makes the displayed mode, CPU load, latency
  and indicator class those of that state, and a body with any other status (\<open>info\<close>
  and \<open>error\<close> among them) leaves the displayed state as it was and shows a
  notification with the server's message.
\<close>

theorem mode_change_updates_on_success_only:
  assumes "res_json res = Some (JsonObject d)"
  shows
    "(res_status res = 429 \<longrightarrow>
        displayed (snd (enviarComando modo (Some b) (Some res) s)) = displayed s) \<and>
     (res_status res \<noteq> 429 \<and> status d = JStr ''success'' \<and> estado d = Some e \<longrightarrow>
        displayed (snd (enviarComando modo (Some b) (Some res) s)) =
          (textContent_of (modo_actual e), textContent_of (carga_cpu e),
           textContent_of (latencia e),
           (if modo_actual e = JStr ''OFF'' then ''kpi status-off''
            else if modo_actual e = JStr ''STANDBY'' then ''kpi status-standby''
            else ''kpi status-on'')) \<and>
        (btnActual s = Some b \<longrightarrow>
           displayed (snd (confirmarApagadoFinal (Some res) s)) =
             (textContent_of (modo_actual e), textContent_of (carga_cpu e),
              textContent_of (latencia e),
              (if modo_actual e = JStr ''OFF'' then ''kpi status-off''
               else if modo_actual e = JStr ''STANDBY'' then ''kpi status-standby''
               else ''kpi status-on'')))) \<and>
     (res_status res \<noteq> 429 \<and> status d \<noteq> JStr ''success'' \<longrightarrow>
        displayed (snd (enviarComando modo (Some b) (Some res) s)) = displayed s \<and>
        snd (last (body_children (snd (enviarComando modo (Some b) (Some res) s)))) =
          \<lparr>className = (if status d = JStr ''info'' then ''notificacion info''
                         else ''notificacion error''),
           textContent = textContent_of (msg d), animation = []\<rparr> \<and>
        (btnActual s = Some b \<longrightarrow>
           displayed (snd (confirmarApagadoFinal (Some res) s)) = displayed s \<and>
           snd (last (body_children (snd (confirmarApagadoFinal (Some res) s)))) =
             \<lparr>className = ''notificacion error'', textContent = textContent_of (msg d),
              animation = []\<rparr>))"
proof (intro conjI impI)
  assume "res_status res = 429"
  with assms show "displayed (snd (enviarComando modo (Some b) (Some res) s)) = displayed s"
    by (rule enviarComando_429(1))
next
  assume "res_status res \<noteq> 429 \<and> status d = JStr ''success'' \<and> estado d = Some e"
  with assms show "displayed (snd (enviarComando modo (Some b) (Some res) s)) =
      (textContent_of (modo_actual e), textContent_of (carga_cpu e),
       textContent_of (latencia e),
       (if modo_actual e = JStr ''OFF'' then ''kpi status-off''
        else if modo_actual e = JStr ''STANDBY'' then ''kpi status-standby''
        else ''kpi status-on''))"
    by (simp add: enviarComando_success)
next
  assume "res_status res \<noteq> 429 \<and> status d = JStr ''success'' \<and> estado d = Some e"
    and "btnActual s = Some b"
  with assms show "displayed (snd (confirmarApagadoFinal (Some res) s)) =
      (textContent_of (modo_actual e), textContent_of (carga_cpu e),
       textContent_of (latencia e),
       (if modo_actual e = JStr ''OFF'' then ''kpi status-off''
        else if modo_actual e = JStr ''STANDBY'' then ''kpi status-standby''
        else ''kpi status-on''))"
    by (simp add: confirmarApagadoFinal_success)
next
  assume "res_status res \<noteq> 429 \<and> status d \<noteq> JStr ''success''"
  with assms show "displayed (snd (enviarComando modo (Some b) (Some res) s)) = displayed s"
    by (simp add: enviarComando_other(1))
next
  assume "res_status res \<noteq> 429 \<and> status d \<noteq> JStr ''success''"
  with assms show "snd (last (body_children (snd (enviarComando modo (Some b) (Some res) s)))) =
      \<lparr>className = (if status d = JStr ''info'' then ''notificacion info''
                     else ''notificacion error''),
       textContent = textContent_of (msg d), animation = []\<rparr>"
    by (simp add: enviarComando_other(2))
next
  assume "res_status res \<noteq> 429 \<and> status d \<noteq> JStr ''success''"
    and "btnActual s = Some b"
  with assms show "displayed (snd (confirmarApagadoFinal (Some res) s)) = displayed s"
    by (simp add: confirmarApagadoFinal_other(1))
next
  assume "res_status res \<noteq> 429 \<and> status d \<noteq> JStr ''success''"
    and "btnActual s = Some b"
  with assms show "snd (last (body_children (snd (confirmarApagadoFinal (Some res) s)))) =
      \<lparr>className = ''notificacion error'', textContent = textContent_of (msg d),
       animation = []\<rparr>"
    by (simp add: confirmarApagadoFinal_other(2))
qed

theorem mode_change_updates_on_success_only_witness:
  "res_json res_estado_cine =
     Some (JsonObject (empty_data\<lparr>status := JStr ''success'', estado := Some estado_cine\<rparr>)) \<and>
   res_status res_estado_cine \<noteq> 429 \<and>
   btnActual (pagina\<lparr>btnActual := Some 0\<rparr>) = Some 0 \<and>
   displayed (snd (enviarComando (JStr ''CINE'') (Some 0) (Some res_estado_cine)
                     (pagina\<lparr>btnActual := Some 0\<rparr>))) =
     (''CINE'', ''88'', ''24'', ''kpi status-on'') \<and>
   displayed (snd (confirmarApagadoFinal (Some res_estado_cine)
                     (pagina\<lparr>btnActual := Some 0\<rparr>))) =
     (''CINE'', ''88'', ''24'', ''kpi status-on'') \<and>
   res_json res_info =
     Some (JsonObject (empty_data\<lparr>status := JStr ''info'', msg := JStr ''sin cambios''\<rparr>)) \<and>
   displayed (snd (enviarComando (JStr ''CINE'') (Some 0) (Some res_info) pagina)) =
     (''--'', ''--'', ''--'', ''kpi'') \<and>
   snd (last (body_children (snd (enviarComando (JStr ''CINE'') (Some 0) (Some res_info) pagina)))) =
     \<lparr>className = ''notificacion info'', textContent = ''sin cambios'', animation = []\<rparr> \<and>
   res_status res_429_success = 429 \<and>
   displayed (snd (enviarComando (JStr ''CINE'') (Some 0) (Some res_429_success) pagina)) =
     (''--'', ''--'', ''--'', ''kpi'')"
  using mode_change_updates_on_success_only
      [of res_estado_cine
          "empty_data\<lparr>status := JStr ''success'', estado := Some estado_cine\<rparr>"
          "JStr ''CINE''" 0 "pagina\<lparr>btnActual := Some 0\<rparr>" estado_cine]
    mode_change_updates_on_success_only
      [of res_info "empty_data\<lparr>status := JStr ''info'', msg := JStr ''sin cambios''\<rparr>"
          "JStr ''CINE''" 0 pagina estado_cine]
    mode_change_updates_on_success_only
      [of res_429_success
          "empty_data\<lparr>status := JStr ''success'', estado := Some estado_cine\<rparr>"
          "JStr ''CINE''" 0 pagina estado_cine]
  by (simp add: res_estado_cine_def res_info_def res_429_success_def empty_data_def
        estado_cine_def string_of_nat.simps)
     (simp add: pagina_def displayed_def)

text \<open>
  Claim C4 as stated fails: the response below has a body whose status is \<open>success\<close>
  and which carries the state CINE, 88, 24, and the plain dispatch leaves the
  displayed state of the sample page untouched, because the HTTP status is 429.
\<close>

theorem rate_limited_success_body_not_rendered:
  "res_json res_429_success =
     Some (JsonObject (empty_data\<lparr>status := JStr ''success'', estado := Some estado_cine\<rparr>)) \<and>
   status (empty_data\<lparr>status := JStr ''success'', estado := Some estado_cine\<rparr>) =
     JStr ''success'' \<and>
   displayed (snd (enviarComando (JStr ''CINE'') (Some 0) (Some res_429_success) pagina)) =
     (''--'', ''--'', ''--'', ''kpi'') \<and>
   displayed (snd (enviarComando (JStr ''CINE'') (Some 0) (Some res_429_success) pagina)) \<noteq>
     (''CINE'', ''88'', ''24'', ''kpi status-on'')"
  using enviarComando_429(1)
    [of res_429_success
        "JsonObject (empty_data\<lparr>status := JStr ''success'', estado := Some estado_cine\<rparr>)"
        "JStr ''CINE''" 0 pagina]
  by (simp add: res_429_success_def) (simp add: pagina_def displayed_def)

lemma enviarComando_not_json:
  assumes "res_json res = None"
  shows "snd (last (body_children (snd (enviarComando modo (Some b) (Some res) s)))) =
           \<lparr>className = ''notificacion error'', textContent = msg_conexion_servidor,
            animation = []\<rparr>"
  using assms
  by (simp add: enviarComando_snd enviarComando_try_def Let_def last_mostrar)

text \<open>
  Claim C1 at a rate-limited response with the body
  \<open>{status: "error", msg: "rate limit exceeded"}\<close>: the plain dispatch shows the
  rate-limit notice, the confirmed OFF dispatch has no branch for HTTP 429 and shows
  the body's message as an ordinary error. At a rate-limited response whose body is
  not JSON the plain dispatch shows the connection-error notice, since it parses the
  body before it looks at the HTTP status.
\<close>

theorem confirmed_off_ignores_rate_limit:
  "snd (last (body_children
     (snd (enviarComando (JStr ''OFF'') (Some 0) (Some res_429_error)
             (pagina\<lparr>btnActual := Some 0\<rparr>))))) =
     \<lparr>className = ''notificacion error'',
      textContent = ''Demasiadas solicitudes. Espere un momento.'', animation = []\<rparr> \<and>
   snd (last (body_children
     (snd (confirmarApagadoFinal (Some res_429_error) (pagina\<lparr>btnActual := Some 0\<rparr>))))) =
     \<lparr>className = ''notificacion error'', textContent = ''rate limit exceeded'',
      animation = []\<rparr> \<and>
   snd (last (body_children
     (snd (enviarComando (JStr ''OFF'') (Some 0) (Some \<lparr>res_status = 429, res_json = None\<rparr>)
             pagina)))) =
     \<lparr>className = ''notificacion error'', textContent = msg_conexion_servidor,
      animation = []\<rparr>"
  using enviarComando_429(2)
      [of res_429_error
          "JsonObject (empty_data\<lparr>status := JStr ''error'', msg := JStr ''rate limit exceeded''\<rparr>)"
          "JStr ''OFF''" 0 "pagina\<lparr>btnActual := Some 0\<rparr>"]
    confirmarApagadoFinal_other(2)
      [of "pagina\<lparr>btnActual := Some 0\<rparr>" 0 res_429_error
          "empty_data\<lparr>status := JStr ''error'', msg := JStr ''rate limit exceeded''\<rparr>"]
    enviarComando_not_json [of "\<lparr>res_status = 429, res_json = None\<rparr>" "JStr ''OFF''" 0 pagina]
  by (simp add: res_429_error_def empty_data_def msg_demasiadas_def)

section \<open>Properties of the admin page\<close>

lemma requests_alert: "requests (alert m s) = requests s"
  by (simp add: alert_def)

lemma requests_console_error: "requests (console_error l e s) = requests s"
  by (simp add: console_error_def)

lemma requests_fetch: "requests (fetch rq s) = requests s @ [rq]"
  by (simp add: fetch_def)

lemma requests_cerrarModalUsuario: "requests (cerrarModalUsuario s) = requests s"
  by (simp add: cerrarModalUsuario_def)

lemma requests_cerrarModalLimpiarLogs: "requests (cerrarModalLimpiarLogs s) = requests s"
  by (simp add: cerrarModalLimpiarLogs_def)

lemmas requests_simps = requests_alert requests_console_error requests_fetch
  requests_cerrarModalUsuario requests_cerrarModalLimpiarLogs

lemma requests_guardarUsuario:
  "requests (guardarUsuario r s) =
     requests s @
     POST ''/api/admin/usuarios''
       [(''username'', JStr (usuario_username (form_usuario s))),
        (''password'', JStr (usuario_password (form_usuario s))),
        (''nombre_completo'', JStr (usuario_nombre (form_usuario s))),
        (''email'', JStr (usuario_email (form_usuario s))),
        (''rol'', JStr (usuario_rol (form_usuario s)))] #
     (case r of
        None \<Rightarrow> []
      | Some res \<Rightarrow>
          (case res_json res of
             None \<Rightarrow> []
           | Some JsonNull \<Rightarrow> []
           | Some (JsonObject d) \<Rightarrow>
               if status d = JStr ''success''
               then [GET ''/api/admin/usuarios'', GET ''/api/admin/estadisticas'']
               else []))"
  by (simp add: guardarUsuario_def guardarUsuario_try_def Let_def requests_simps
        cargarEstadisticas_fetch_def cargarUsuarios_fetch_def
      split: option.splits json.splits)

text \<open>
  Claim C2 on the code: the request \<open>guardarUsuario\<close> sends carries the five fields
  \<open>username\<close>, \<open>password\<close>, \<open>nombre_completo\<close>, \<open>email\<close> and \<open>rol\<close> and no id, and
  the requests sent do not depend on the field \<open>usuario-id\<close>. After the modal has been
  opened for an edit of user 5 the field holds 5, and the request sent is the one the
  empty id of the sample page gives.
\<close>

theorem guardarUsuario_request_without_id:
  "requests (guardarUsuario r (s\<lparr>form_usuario := (form_usuario s)\<lparr>usuario_id := i\<rparr>\<rparr>)) =
     requests (guardarUsuario r s) \<and>
   usuario_id (form_usuario (mostrarModalUsuario (JNum 5) pagina_admin)) = ''5'' \<and>
   requests (guardarUsuario None (mostrarModalUsuario (JNum 5) pagina_admin)) =
     [POST ''/api/admin/usuarios''
        [(''username'', JStr ''ana''), (''password'', JStr ''s3creta''),
         (''nombre_completo'', JStr ''Ana Ruiz''), (''email'', JStr ''ana@example.org''),
         (''rol'', JStr ''operador'')]] \<and>
   requests (guardarUsuario None pagina_admin) =
     requests (guardarUsuario None (mostrarModalUsuario (JNum 5) pagina_admin))"
  by (simp add: requests_guardarUsuario)
     (simp add: pagina_admin_def mostrarModalUsuario_def string_of_nat.simps)

text \<open>
  Claim C8. When the user does not confirm the prompt, deactivating a user and
  purging the logs send no request. When the user confirms, the first request sent is
  the DELETE of that user, respectively the cleanup POST with the parsed number of
  days.
\<close>

theorem destructive_actions_need_confirmation:
  "(\<not> confirmed \<longrightarrow>
      requests (confirmarEliminarUsuario userId confirmed result s) = requests s \<and>
      requests (ejecutarLimpiezaLogs confirmed result s) = requests s) \<and>
   (confirmed \<longrightarrow>
      (\<exists>rest. requests (confirmarEliminarUsuario userId confirmed result s) =
         requests s @ DELETE (''/api/admin/usuarios/'' @ toString userId) # rest) \<and>
      (\<exists>rest. requests (ejecutarLimpiezaLogs confirmed result s) =
         requests s @
         POST ''/api/admin/logs/limpiar'' [(''dias'', parseInt (dias_mantener s))] # rest))"
  by (auto simp: confirmarEliminarUsuario_def confirmarEliminarUsuario_try_def
        ejecutarLimpiezaLogs_def ejecutarLimpiezaLogs_try_def Let_def requests_simps
        cargarEstadisticas_fetch_def cargarUsuarios_fetch_def
      split: option.splits json.splits)

theorem destructive_actions_need_confirmation_witness:
  "requests (confirmarEliminarUsuario (JNum 5) False (Some res_estado_cine) pagina_admin) = [] \<and>
   requests (ejecutarLimpiezaLogs False (Some res_estado_cine) pagina_admin) = [] \<and>
   (\<exists>rest. requests (confirmarEliminarUsuario (JNum 5) True (Some res_estado_cine) pagina_admin) =
      DELETE ''/api/admin/usuarios/5'' # rest) \<and>
   (\<exists>rest. requests (ejecutarLimpiezaLogs True (Some res_estado_cine) pagina_admin) =
      POST ''/api/admin/logs/limpiar'' [(''dias'', JNum 30)] # rest)"
proof -
  have r0: "requests pagina_admin = []" and d0: "dias_mantener pagina_admin = ''30''"
    by (simp_all add: pagina_admin_def)
  have p: "parseInt ''30'' = JNum 30"
    by (simp add: parseInt_def is_space_def is_digit_in_def digit_value_def)
  show ?thesis
    using destructive_actions_need_confirmation
        [of False "JNum 5" "Some res_estado_cine" pagina_admin]
      destructive_actions_need_confirmation
        [of True "JNum 5" "Some res_estado_cine" pagina_admin]
    by (simp add: r0 d0 p string_of_nat.simps)
qed

end
